theory Spec2Isabelle
  imports Complex_Main
begin

section \<open>JavaScript values that reach the game-details view model\<close>

text \<open>
  Times in \<^verbatim>\<open>details.js\<close> are JavaScript numbers, or \<^verbatim>\<open>undefined\<close> where an
  attribute has not been set (the view model's \<^verbatim>\<open>time\<close> before the first
  position update, \<^verbatim>\<open>stat.time\<close> when no stat is open). A finite number is
  modelled by the real it denotes (arithmetic is exact; rounding of doubles is not
  modelled); the three special numbers are kept apart.
\<close>

datatype jsval = Num real | PosInf | NegInf | NaN | Undefined

text \<open>\<^verbatim>\<open>typeof v === "number"\<close>\<close>

fun typeof_number :: "jsval \<Rightarrow> bool" where
  "typeof_number Undefined = False"
| "typeof_number _ = True"

text \<open>The conversion every arithmetic and relational operator applies first.\<close>

fun ToNumber :: "jsval \<Rightarrow> jsval" where
  "ToNumber Undefined = NaN"
| "ToNumber v = v"

text \<open>\<^verbatim>\<open>x < y\<close> on two numbers; any comparison with \<^verbatim>\<open>NaN\<close> is false.\<close>

fun num_lt :: "jsval \<Rightarrow> jsval \<Rightarrow> bool" where
  "num_lt (Num a) (Num b) = (a < b)"
| "num_lt (Num a) PosInf = True"
| "num_lt NegInf (Num b) = True"
| "num_lt NegInf PosInf = True"
| "num_lt _ _ = False"

fun isNaN :: "jsval \<Rightarrow> bool" where
  "isNaN NaN = True"
| "isNaN Undefined = True"
| "isNaN _ = False"

definition js_lt :: "jsval \<Rightarrow> jsval \<Rightarrow> bool" where
  "js_lt x y = num_lt (ToNumber x) (ToNumber y)"

definition js_le :: "jsval \<Rightarrow> jsval \<Rightarrow> bool" where
  "js_le x y = (\<not> isNaN x \<and> \<not> isNaN y \<and> \<not> num_lt (ToNumber y) (ToNumber x))"

definition js_gt :: "jsval \<Rightarrow> jsval \<Rightarrow> bool" where
  "js_gt x y = js_lt y x"

definition js_ge :: "jsval \<Rightarrow> jsval \<Rightarrow> bool" where
  "js_ge x y = js_le y x"

text \<open>\<^verbatim>\<open>x + y\<close> and \<^verbatim>\<open>x - y\<close> on numbers and \<^verbatim>\<open>undefined\<close>, and \<^verbatim>\<open>Math.abs\<close>.\<close>

fun num_add :: "jsval \<Rightarrow> jsval \<Rightarrow> jsval" where
  "num_add (Num a) (Num b) = Num (a + b)"
| "num_add (Num a) PosInf = PosInf"
| "num_add (Num a) NegInf = NegInf"
| "num_add PosInf (Num b) = PosInf"
| "num_add NegInf (Num b) = NegInf"
| "num_add PosInf PosInf = PosInf"
| "num_add NegInf NegInf = NegInf"
| "num_add _ _ = NaN"

fun num_neg :: "jsval \<Rightarrow> jsval" where
  "num_neg (Num a) = Num (- a)"
| "num_neg PosInf = NegInf"
| "num_neg NegInf = PosInf"
| "num_neg _ = NaN"

definition js_add :: "jsval \<Rightarrow> jsval \<Rightarrow> jsval" where
  "js_add x y = num_add (ToNumber x) (ToNumber y)"

definition js_sub :: "jsval \<Rightarrow> jsval \<Rightarrow> jsval" where
  "js_sub x y = num_add (ToNumber x) (num_neg (ToNumber y))"

fun Math_abs :: "jsval \<Rightarrow> jsval" where
  "Math_abs (Num a) = Num \<bar>a\<bar>"
| "Math_abs PosInf = PosInf"
| "Math_abs NegInf = PosInf"
| "Math_abs _ = NaN"

text \<open>The truth value of \<^verbatim>\<open>if(v)\<close>: zero, \<^verbatim>\<open>NaN\<close> and \<^verbatim>\<open>undefined\<close> are false.\<close>

fun truthy :: "jsval \<Rightarrow> bool" where
  "truthy (Num a) = (a \<noteq> 0)"
| "truthy PosInf = True"
| "truthy NegInf = True"
| "truthy _ = False"

text \<open>
  Identifiers (player, game and stat ids) are database integers; an unset slot is
  \<^verbatim>\<open>null\<close> and a missing attribute \<^verbatim>\<open>undefined\<close>. Used as a property name each of
  them is a different key, so an object indexed by ids is a map on this type.
\<close>

datatype jskey = Key int | Null | Undef

section \<open>The models the view model reads\<close>

record Team =
  player1Id :: jskey
  player2Id :: jskey
  player3Id :: jskey
  player4Id :: jskey

record Player =
  id_Player :: jskey

record Stat =
  id_Stat :: jskey
  gameId :: jskey
  playerId :: jskey
  type :: "string option"
  time :: jsval
  player :: "Player option"

record Game =
  id_Game :: jskey
  homeTeam :: "Team option"
  awayTeam :: "Team option"
  stats :: "Stat list option"

text \<open>\<^verbatim>\<open>team.attr("player" + i + "Id")\<close>: an attribute that does not exist reads \<^verbatim>\<open>undefined\<close>.\<close>

definition attr_playerId :: "Team \<Rightarrow> nat \<Rightarrow> jskey" where
  "attr_playerId t i =
     (if i = 1 then player1Id t
      else if i = 2 then player2Id t
      else if i = 3 then player3Id t
      else if i = 4 then player4Id t
      else Undef)"

section \<open>playerIdToHomeOrAwayMap\<close>

datatype side = Home | Away

type_synonym playerMap = "jskey \<rightharpoonup> side"

text \<open>
  \<^verbatim>\<open>for(var i = 1; i <= 4; i++) { map[home.player_i] = "home"; map[away.player_i] = "away"; }\<close>
\<close>

function map_loop :: "Team \<Rightarrow> Team \<Rightarrow> nat \<Rightarrow> playerMap \<Rightarrow> playerMap" where
  "map_loop h a i m =
     (if i \<le> 4
      then map_loop h a (i + 1) ((m(attr_playerId h i \<mapsto> Home))(attr_playerId a i \<mapsto> Away))
      else m)"
  by pat_completeness auto
termination
  by (relation "measure (\<lambda>(h, a, i, m). 5 - i)") auto

declare map_loop.simps [simp del]

text \<open>The getter returns \<^verbatim>\<open>undefined\<close> (here \<open>None\<close>) until the game and both teams are loaded.\<close>

definition playerIdToHomeOrAwayMap :: "Game option \<Rightarrow> playerMap option" where
  "playerIdToHomeOrAwayMap game =
     (case game of
        None \<Rightarrow> None
      | Some g \<Rightarrow>
          (case homeTeam g of
             None \<Rightarrow> None
           | Some h \<Rightarrow>
               (case awayTeam g of
                  None \<Rightarrow> None
                | Some a \<Rightarrow> Some (map_loop h a 1 Map.empty))))"

section \<open>finalScore and currentScore\<close>

text \<open>
  The totals object starts as \<^verbatim>\<open>{home: 0, away: 0}\<close>. \<^verbatim>\<open>scores[k]++\<close> with \<^verbatim>\<open>k\<close>
  \<^verbatim>\<open>undefined\<close> (a player the map does not know) creates the property
  \<^verbatim>\<open>"undefined"\<close> holding \<^verbatim>\<open>NaN\<close> and leaves the two totals alone; the third field
  records whether that property exists.
\<close>

record scores =
  home :: nat
  away :: nat
  undefined_NaN :: bool

datatype error = TypeError | ObjectDoesNotExist

text \<open>\<^verbatim>\<open>scores[k] += n\<close> for the three keys a lookup in the player map can give.\<close>

definition add_to :: "side option \<Rightarrow> nat \<Rightarrow> scores \<Rightarrow> scores" where
  "add_to k n sc =
     (case k of
        Some Home \<Rightarrow> sc\<lparr>home := home sc + n\<rparr>
      | Some Away \<Rightarrow> sc\<lparr>away := away sc + n\<rparr>
      | None \<Rightarrow> sc\<lparr>undefined_NaN := True\<rparr>)"

text \<open>
  \<^verbatim>\<open>scores[playerMap[stat.attr("playerId")]] += n\<close>: indexing a player map that is
  \<^verbatim>\<open>undefined\<close> throws.
\<close>

definition credit :: "playerMap option \<Rightarrow> Stat \<Rightarrow> nat \<Rightarrow> scores \<Rightarrow> error + scores" where
  "credit playerMap stat n sc =
     (case playerMap of
        None \<Rightarrow> Inl TypeError
      | Some m \<Rightarrow> Inr (add_to (m (playerId stat)) n sc))"

text \<open>The body of the callback of \<^verbatim>\<open>finalScore\<close>: two consecutive \<^verbatim>\<open>if\<close>s.\<close>

definition tally :: "playerMap option \<Rightarrow> Stat \<Rightarrow> scores \<Rightarrow> error + scores" where
  "tally playerMap stat sc =
     (case (if type stat = Some ''1P'' then credit playerMap stat 1 sc else Inr sc) of
        Inl e \<Rightarrow> Inl e
      | Inr sc1 \<Rightarrow> if type stat = Some ''2P'' then credit playerMap stat 2 sc1 else Inr sc1)"

text \<open>The callback of \<^verbatim>\<open>currentScore\<close>: the same body under \<^verbatim>\<open>stat.time <= time\<close>.\<close>

definition tally_upto :: "jsval \<Rightarrow> playerMap option \<Rightarrow> Stat \<Rightarrow> scores \<Rightarrow> error + scores" where
  "tally_upto t playerMap stat sc =
     (if js_le (time stat) t then tally playerMap stat sc else Inr sc)"

text \<open>\<^verbatim>\<open>list.each(callback)\<close>: in list order; an exception leaves the loop.\<close>

fun each :: "('a \<Rightarrow> 's \<Rightarrow> error + 's) \<Rightarrow> 'a list \<Rightarrow> 's \<Rightarrow> error + 's" where
  "each f [] s = Inr s"
| "each f (x # xs) s = (case f x s of Inl e \<Rightarrow> Inl e | Inr s' \<Rightarrow> each f xs s')"

definition zero_scores :: scores where
  "zero_scores = \<lparr>home = 0, away = 0, undefined_NaN = False\<rparr>"

text \<open>
  Both getters take what they read from the view model: the game and, for
  \<^verbatim>\<open>currentScore\<close>, the \<^verbatim>\<open>time\<close> attribute. \<open>Inr None\<close> is the getter returning
  \<^verbatim>\<open>undefined\<close>.
\<close>

definition finalScore :: "Game option \<Rightarrow> error + scores option" where
  "finalScore game =
     (case game of
        None \<Rightarrow> Inr None
      | Some g \<Rightarrow>
          (case stats g of
             None \<Rightarrow> Inr None
           | Some ss \<Rightarrow>
               (case each (tally (playerIdToHomeOrAwayMap game)) ss zero_scores of
                  Inl e \<Rightarrow> Inl e
                | Inr sc \<Rightarrow> Inr (Some sc))))"

definition currentScore :: "Game option \<Rightarrow> jsval \<Rightarrow> error + scores option" where
  "currentScore game t =
     (case game of
        None \<Rightarrow> Inr None
      | Some g \<Rightarrow>
          (case stats g of
             None \<Rightarrow> Inr None
           | Some ss \<Rightarrow>
               (case each (tally_upto t (playerIdToHomeOrAwayMap game)) ss zero_scores of
                  Inl e \<Rightarrow> Inl e
                | Inr sc \<Rightarrow> Inr (Some sc))))"

section \<open>The view model and its collaborators\<close>

text \<open>
  The session object answers \<^verbatim>\<open>isAdmin()\<close>; the YouTube player answers
  \<^verbatim>\<open>getCurrentTime()\<close>. Commands sent to the player, calls to the stat store, the
  confirmation prompt, calls on the DOM event and lines written to the console are appended to
  \<open>trace\<close> in the order the code issues them; what the collaborators do with them is
  not part of \<^verbatim>\<open>details.js\<close>.
\<close>

record Session =
  isAdmin :: bool

record YTPlayer =
  getCurrentTime :: jsval

datatype call =
    PauseVideo
  | SeekTo jsval bool
  | Save Stat
  | Destroy Stat
  | Confirm
  | ConsoleLog string
  | PreventDefault
  | StopPropagation

text \<open>
  \<open>vm_time\<close> is the view model's \<^verbatim>\<open>time\<close> attribute (the name \<open>time\<close> is taken by
  the stat's field); \<open>timeUpdate_timer\<close> tells whether the component's
  \<^verbatim>\<open>this.timeUpdate\<close> timeout is pending.
\<close>

record ViewModel =
  session :: "Session option"
  game :: "Game option"
  stat :: "Stat option"
  youtubePlayer :: "YTPlayer option"
  vm_time :: jsval
  duration :: jsval
  playing :: bool
  timeUpdate_timer :: bool
  trace :: "call list"

text \<open>
  Modelled from the spec: the constructor of the Stat model (\<^verbatim>\<open>bitballs/models/stat\<close>)
  is not among the sources. A candidate is "seeded with" the attributes it is given, so
  \<^verbatim>\<open>new Stat(attrs)\<close> stores them unchanged and leaves the others unset.
\<close>

definition new_Stat :: "jsval \<Rightarrow> jskey \<Rightarrow> jskey \<Rightarrow> Player \<Rightarrow> Stat" where
  "new_Stat t pid gid p =
     \<lparr>id_Stat = Undef, gameId = gid, playerId = pid, type = None, time = t, player = Some p\<rparr>"

text \<open>\<^verbatim>\<open>this.attr("game.id")\<close> and \<^verbatim>\<open>this.attr("stat.time")\<close>: a missing object reads \<^verbatim>\<open>undefined\<close>.\<close>

definition attr_game_id :: "ViewModel \<Rightarrow> jskey" where
  "attr_game_id vm = (case game vm of None \<Rightarrow> Undef | Some g \<Rightarrow> id_Game g)"

definition attr_stat_time :: "ViewModel \<Rightarrow> jsval" where
  "attr_stat_time vm = (case stat vm of None \<Rightarrow> Undefined | Some s \<Rightarrow> time s)"

definition showStatMenuFor :: "Player \<Rightarrow> ViewModel \<Rightarrow> error + ViewModel" where
  "showStatMenuFor p vm =
     (case session vm of
        None \<Rightarrow> Inr vm
      | Some s \<Rightarrow>
          if \<not> isAdmin s then Inr vm
          else
            (case youtubePlayer vm of
               None \<Rightarrow> Inl TypeError
             | Some yt \<Rightarrow>
                 let t = getCurrentTime yt;
                     vm1 = vm\<lparr>trace := trace vm @ [PauseVideo]\<rparr>
                 in Inr (vm1\<lparr>stat := Some (new_Stat t (id_Player p) (attr_game_id vm1) p)\<rparr>)))"

text \<open>
  \<^verbatim>\<open>createStat\<close> issues the save and returns; the store answers later through one of
  the two callbacks, modelled by \<open>save_done\<close>.
\<close>

definition createStat :: "ViewModel \<Rightarrow> error + ViewModel" where
  "createStat vm =
     (case stat vm of
        None \<Rightarrow> Inl TypeError
      | Some s \<Rightarrow> Inr (vm\<lparr>trace := trace vm @ [PreventDefault, Save s]\<rparr>))"

datatype save_outcome = Resolved | Rejected string

fun save_done :: "save_outcome \<Rightarrow> ViewModel \<Rightarrow> ViewModel" where
  "save_done Resolved vm = vm\<lparr>stat := None\<rparr>"
| "save_done (Rejected e) vm = (vm\<lparr>trace := trace vm @ [ConsoleLog e]\<rparr>)\<lparr>stat := None\<rparr>"

definition removeStat :: "ViewModel \<Rightarrow> ViewModel" where
  "removeStat vm = vm\<lparr>stat := None\<rparr>"

text \<open>
  \<^verbatim>\<open>this.attr("stat.time", v)\<close>: writing through a path whose first object is missing
  makes the map throw "Object does not exist".
\<close>

definition set_stat_time :: "jsval \<Rightarrow> ViewModel \<Rightarrow> error + ViewModel" where
  "set_stat_time v vm =
     (case stat vm of
        None \<Rightarrow> Inl ObjectDoesNotExist
      | Some s \<Rightarrow> Inr (vm\<lparr>stat := Some (s\<lparr>time := v\<rparr>)\<rparr>))"

definition addTime :: "jsval \<Rightarrow> ViewModel \<Rightarrow> error + ViewModel" where
  "addTime t vm = set_stat_time (js_add (attr_stat_time vm) t) vm"

definition minusTime :: "jsval \<Rightarrow> ViewModel \<Rightarrow> error + ViewModel" where
  "minusTime t vm = set_stat_time (js_sub (attr_stat_time vm) t) vm"

text \<open>
  \<^verbatim>\<open>deleteStat(stat, event)\<close>: \<open>answer\<close> is what \<^verbatim>\<open>window.confirm\<close> returns, \<open>event\<close>
  whether an event object was passed.
\<close>

definition deleteStat :: "Stat \<Rightarrow> bool \<Rightarrow> bool \<Rightarrow> ViewModel \<Rightarrow> ViewModel" where
  "deleteStat st event answer vm =
     (let vm1 = vm\<lparr>trace := trace vm @ [Confirm]\<rparr>
      in if \<not> answer then vm1
         else
           (let vm2 = vm1\<lparr>trace := trace vm1 @ [Destroy st]\<rparr>
            in if event then vm2\<lparr>trace := trace vm2 @ [StopPropagation]\<rparr> else vm2))"

section \<open>The component's event handlers\<close>

text \<open>\<^verbatim>\<open>updatePosition(time)\<close>: the view model's part; moving the cursor element is not modelled.\<close>

definition updatePosition :: "jsval \<Rightarrow> ViewModel \<Rightarrow> ViewModel" where
  "updatePosition t vm = (if truthy (duration vm) then vm\<lparr>vm_time := t\<rparr> else vm)"

text \<open>One run of the inner function \<^verbatim>\<open>timeUpdate\<close>, which re-arms itself every 100 ms.\<close>

definition timeUpdate :: "ViewModel \<Rightarrow> error + ViewModel" where
  "timeUpdate vm =
     (case youtubePlayer vm of
        None \<Rightarrow> Inl TypeError
      | Some yt \<Rightarrow>
          let currentTime = getCurrentTime yt;
              vm1 = (case stat vm of
                       None \<Rightarrow> vm
                     | Some s \<Rightarrow> vm\<lparr>stat := Some (s\<lparr>time := currentTime\<rparr>)\<rparr>);
              vm2 = vm1\<lparr>timeUpdate_timer := True\<rparr>
          in Inr (updatePosition currentTime vm2))"

datatype PlayerState = UNSTARTED | ENDED | PLAYING | PAUSED | BUFFERING | CUED

definition onPlayerStateChange :: "PlayerState \<Rightarrow> ViewModel \<Rightarrow> error + ViewModel" where
  "onPlayerStateChange ev vm =
     (if ev = PLAYING then timeUpdate (vm\<lparr>playing := True\<rparr>)
      else Inr ((vm\<lparr>playing := False\<rparr>)\<lparr>timeUpdate_timer := False\<rparr>))"

text \<open>The handler \<^verbatim>\<open>"{stat} time"\<close>, run when the open stat's time has changed.\<close>

definition stat_time_handler :: "ViewModel \<Rightarrow> error + ViewModel" where
  "stat_time_handler vm =
     (let t = attr_stat_time vm
      in if typeof_number t \<and> js_ge t (Num 0)
         then
           (case youtubePlayer vm of
              None \<Rightarrow> Inl TypeError
            | Some yt \<Rightarrow>
                let playerTime = getCurrentTime yt
                in if js_gt (Math_abs (js_sub t playerTime)) (Num 2)
                   then Inr (vm\<lparr>trace := trace vm @ [SeekTo t True]\<rparr>)
                   else Inr vm)
         else Inr vm)"

section \<open>What the totals are compared with\<close>

text \<open>
  The point value of a stat, as the two branches of the callbacks give it: one for
  \<^verbatim>\<open>"1P"\<close>, two for \<^verbatim>\<open>"2P"\<close>, nothing for any other kind.
\<close>

definition point_value :: "Stat \<Rightarrow> nat" where
  "point_value s = (if type s = Some ''1P'' then 1 else if type s = Some ''2P'' then 2 else 0)"

text \<open>The sum of the point values of the stats of a list whose player the map gives to a side.\<close>

definition side_total :: "playerMap \<Rightarrow> side \<Rightarrow> Stat list \<Rightarrow> nat" where
  "side_total m sd ss = sum_list (map point_value (filter (\<lambda>s. m (playerId s) = Some sd) ss))"

text \<open>The eight writes of the loop of \<^verbatim>\<open>playerIdToHomeOrAwayMap\<close>, in the order it makes them.\<close>

definition assignments :: "Team \<Rightarrow> Team \<Rightarrow> (jskey \<times> side) list" where
  "assignments h a =
     [(player1Id h, Home), (player1Id a, Away), (player2Id h, Home), (player2Id a, Away),
      (player3Id h, Home), (player3Id a, Away), (player4Id h, Home), (player4Id a, Away)]"

section \<open>Concrete games and view models\<close>

definition home1234 :: Team where
  "home1234 = \<lparr>player1Id = Key 1, player2Id = Key 2, player3Id = Key 3, player4Id = Key 4\<rparr>"

definition away5678 :: Team where
  "away5678 = \<lparr>player1Id = Key 5, player2Id = Key 6, player3Id = Key 7, player4Id = Key 8\<rparr>"

definition away1567 :: Team where
  "away1567 = \<lparr>player1Id = Key 1, player2Id = Key 5, player3Id = Key 6, player4Id = Key 7\<rparr>"

definition stat_10 :: Stat where
  "stat_10 = \<lparr>id_Stat = Key 1, gameId = Key 1, playerId = Key 1, type = Some ''1P'',
              time = Num 10, player = None\<rparr>"

definition stat_20 :: Stat where
  "stat_20 = \<lparr>id_Stat = Key 2, gameId = Key 1, playerId = Key 5, type = Some ''2P'',
              time = Num 20, player = None\<rparr>"

definition stat_30 :: Stat where
  "stat_30 = \<lparr>id_Stat = Key 3, gameId = Key 1, playerId = Key 2, type = Some ''1P'',
              time = Num 30, player = None\<rparr>"

text \<open>A two-pointer by a player who is on neither team.\<close>

definition stat_stray :: Stat where
  "stat_stray = \<lparr>id_Stat = Key 4, gameId = Key 1, playerId = Key 99, type = Some ''2P'',
                 time = Num 15, player = None\<rparr>"

text \<open>Scenario A: a one-pointer at 10 (home), a two-pointer at 20 (away), a one-pointer at 30 (home).\<close>

definition scenarioA :: Game where
  "scenarioA = \<lparr>id_Game = Key 1, homeTeam = Some home1234, awayTeam = Some away5678,
                stats = Some [stat_10, stat_20, stat_30]\<rparr>"

text \<open>Scenario D: scenario A with the stray stat in the log.\<close>

definition scenarioD :: Game where
  "scenarioD = \<lparr>id_Game = Key 1, homeTeam = Some home1234, awayTeam = Some away5678,
                stats = Some ([stat_10] @ stat_stray # [stat_20, stat_30])\<rparr>"

text \<open>A game whose rosters share player 1.\<close>

definition conflict_game :: Game where
  "conflict_game = \<lparr>id_Game = Key 2, homeTeam = Some home1234, awayTeam = Some away1567,
                    stats = Some []\<rparr>"

definition player7 :: Player where
  "player7 = \<lparr>id_Player = Key 7\<rparr>"

text \<open>An administrator watching scenario A with the video at second 2 and no stat open.\<close>

definition admin_vm :: ViewModel where
  "admin_vm =
     \<lparr>session = Some \<lparr>isAdmin = True\<rparr>, game = Some scenarioA, stat = None,
      youtubePlayer = Some \<lparr>getCurrentTime = Num 2\<rparr>, vm_time = Num 2, duration = Num 600,
      playing = True, timeUpdate_timer = True, trace = []\<rparr>"

text \<open>The same page for a user who is logged in but is no administrator.\<close>

definition viewer_vm :: ViewModel where
  "viewer_vm = admin_vm\<lparr>session := Some \<lparr>isAdmin = False\<rparr>\<rparr>"

text \<open>
  The administrator's page after a click on player 7, then with the candidate moved
  back by ten seconds, and with the candidate moved to second 30.
\<close>

definition seeded_vm :: ViewModel where
  "seeded_vm =
     admin_vm\<lparr>trace := [PauseVideo], stat := Some (new_Stat (Num 2) (Key 7) (Key 1) player7)\<rparr>"

definition nudged_vm :: ViewModel where
  "nudged_vm =
     admin_vm\<lparr>trace := [PauseVideo], stat := Some (new_Stat (Num (- 8)) (Key 7) (Key 1) player7)\<rparr>"

definition scrubbed_vm :: ViewModel where
  "scrubbed_vm =
     admin_vm\<lparr>trace := [PauseVideo], stat := Some (new_Stat (Num 30) (Key 7) (Key 1) player7)\<rparr>"

lemmas example_defs =
  home1234_def away5678_def away1567_def stat_10_def stat_20_def stat_30_def stat_stray_def
  scenarioA_def scenarioD_def conflict_game_def player7_def admin_vm_def viewer_vm_def
  seeded_vm_def nudged_vm_def scrubbed_vm_def new_Stat_def

section \<open>Comparisons\<close>

lemma js_le_PosInf: "js_le x PosInf = (\<not> isNaN x)"
  by (cases x) (simp_all add: js_le_def)

lemma js_le_refl: "\<not> isNaN x \<Longrightarrow> js_le x x"
  by (cases x) (simp_all add: js_le_def)

lemma js_le_trans_lt: "js_le x t1 \<Longrightarrow> js_lt t1 t2 \<Longrightarrow> js_le x t2"
  by (cases x; cases t1; cases t2) (simp_all add: js_le_def js_lt_def)

lemma js_lt_not_ge: "js_lt t (Num 0) \<Longrightarrow> \<not> js_ge t (Num 0)"
  by (cases t) (simp_all add: js_lt_def js_ge_def js_le_def)

section \<open>The player map\<close>

lemma map_loop_unrolled:
  "map_loop h a 1 m =
     m(player1Id h \<mapsto> Home, player1Id a \<mapsto> Away, player2Id h \<mapsto> Home, player2Id a \<mapsto> Away,
       player3Id h \<mapsto> Home, player3Id a \<mapsto> Away, player4Id h \<mapsto> Home, player4Id a \<mapsto> Away)"
  by (simp add: map_loop.simps attr_playerId_def)

lemma map_loop_map_of: "map_loop h a 1 Map.empty = map_of (rev (assignments h a))"
  unfolding map_loop_unrolled by (simp add: assignments_def)

lemma playerIdToHomeOrAwayMap_Some:
  "homeTeam g = Some h \<Longrightarrow> awayTeam g = Some a \<Longrightarrow>
     playerIdToHomeOrAwayMap (Some g) = Some (map_of (rev (assignments h a)))"
  unfolding playerIdToHomeOrAwayMap_def map_loop_map_of by simp

lemma map_without_stats [simp]:
  "playerIdToHomeOrAwayMap (Some (g\<lparr>stats := x\<rparr>)) = playerIdToHomeOrAwayMap (Some g)"
  by (simp add: playerIdToHomeOrAwayMap_def split: option.splits)

lemma distinct_assignments_card:
  assumes "distinct (map fst (assignments h a))"
  shows "card (dom (map_of (rev (assignments h a)))) = 8"
proof -
  have "dom (map_of (rev (assignments h a))) = set (map fst (assignments h a))"
    by (simp only: dom_map_of_conv_image_fst set_rev set_map)
  then have "card (dom (map_of (rev (assignments h a)))) = length (map fst (assignments h a))"
    using distinct_card [OF assms] by simp
  then show ?thesis by (simp add: assignments_def)
qed

lemma distinct_assignments_lookup:
  assumes "distinct (map fst (assignments h a))"
  shows "\<forall>(k, sd) \<in> set (assignments h a). map_of (rev (assignments h a)) k = Some sd"
proof -
  from assms have "distinct (map fst (rev (assignments h a)))"
    by (metis distinct_rev rev_map)
  from map_of_eq_Some_iff [OF this] show ?thesis by auto
qed

lemma scenarioA_map:
  "playerIdToHomeOrAwayMap (Some scenarioA) = Some (map_of (rev (assignments home1234 away5678)))"
  by (rule playerIdToHomeOrAwayMap_Some) (simp_all add: scenarioA_def)

lemma scenarioD_map:
  "playerIdToHomeOrAwayMap (Some scenarioD) = Some (map_of (rev (assignments home1234 away5678)))"
  by (rule playerIdToHomeOrAwayMap_Some) (simp_all add: scenarioD_def)

section \<open>The totals\<close>

lemma tally_Some:
  "tally (Some m) s sc =
     Inr (if point_value s = 0 then sc else add_to (m (playerId s)) (point_value s) sc)"
  by (simp add: tally_def credit_def point_value_def)

lemma each_tally:
  "\<exists>sc'. each (tally (Some m)) ss sc = Inr sc' \<and>
      home sc' = home sc + side_total m Home ss \<and> away sc' = away sc + side_total m Away ss"
proof (induction ss arbitrary: sc)
  case Nil
  show ?case by (simp add: side_total_def)
next
  case (Cons s ss)
  obtain sc1 where 1: "tally (Some m) s sc = Inr sc1"
    and h: "home sc1 = home sc + (if m (playerId s) = Some Home then point_value s else 0)"
    and a: "away sc1 = away sc + (if m (playerId s) = Some Away then point_value s else 0)"
    by (cases "m (playerId s)"; cases "the (m (playerId s))") (auto simp add: tally_Some add_to_def)
  from Cons.IH [of sc1] obtain sc' where "each (tally (Some m)) ss sc1 = Inr sc'"
    "home sc' = home sc1 + side_total m Home ss" "away sc' = away sc1 + side_total m Away ss"
    by blast
  with 1 h a show ?case by (simp add: side_total_def)
qed

lemma each_tally_upto:
  "each (tally_upto t pm) ss sc = each (tally pm) (filter (\<lambda>s. js_le (time s) t) ss) sc"
  by (induction ss arbitrary: sc) (simp_all add: tally_upto_def split: sum.splits)

lemma finalScore_total:
  assumes "stats g = Some ss" and "playerIdToHomeOrAwayMap (Some g) = Some m"
  shows "\<exists>sc. finalScore (Some g) = Inr (Some sc) \<and>
            home sc = side_total m Home ss \<and> away sc = side_total m Away ss"
proof -
  from each_tally [of m ss zero_scores] obtain sc where
    "each (tally (Some m)) ss zero_scores = Inr sc"
    "home sc = side_total m Home ss" "away sc = side_total m Away ss"
    by (auto simp add: zero_scores_def)
  with assms show ?thesis by (simp add: finalScore_def)
qed

lemma currentScore_total:
  assumes "stats g = Some ss" and "playerIdToHomeOrAwayMap (Some g) = Some m"
  shows "\<exists>sc. currentScore (Some g) t = Inr (Some sc) \<and>
            home sc = side_total m Home (filter (\<lambda>s. js_le (time s) t) ss) \<and>
            away sc = side_total m Away (filter (\<lambda>s. js_le (time s) t) ss)"
proof -
  let ?ss = "filter (\<lambda>s. js_le (time s) t) ss"
  from each_tally [of m ?ss zero_scores] obtain sc where
    "each (tally (Some m)) ?ss zero_scores = Inr sc"
    "home sc = side_total m Home ?ss" "away sc = side_total m Away ?ss"
    by (auto simp add: zero_scores_def)
  with assms show ?thesis by (simp add: currentScore_def each_tally_upto)
qed

lemma side_total_filter_mono:
  "(\<And>s. P s \<Longrightarrow> Q s) \<Longrightarrow> side_total m sd (filter P ss) \<le> side_total m sd (filter Q ss)"
  by (induction ss) (auto simp add: side_total_def)

lemmas score_defs =
  currentScore_def finalScore_def playerIdToHomeOrAwayMap_def map_loop.simps attr_playerId_def
  tally_upto_def tally_def credit_def add_to_def zero_scores_def js_le_def

lemma scenarioA_scores:
  "currentScore (Some scenarioA) (Num 20) = Inr (Some \<lparr>home = 1, away = 2, undefined_NaN = False\<rparr>)"
  "finalScore (Some scenarioA) = Inr (Some \<lparr>home = 2, away = 2, undefined_NaN = False\<rparr>)"
  by (simp_all add: score_defs example_defs)

section \<open>Claims about the player map\<close>

text \<open>
  C1, as the code has it. The construction never fails: once the game and both teams
  are there, the getter returns the map left by the eight writes made in the order home 1,
  away 1, ..., home 4, away 4, so an id that is on both rosters silently gets the side written
  last. When the eight ids are pairwise different the map has exactly 8 entries and gives each
  id its own side.
\<close>

theorem playerIdToHomeOrAwayMap_last_write_wins:
  assumes "homeTeam g = Some h" and "awayTeam g = Some a"
  shows "playerIdToHomeOrAwayMap (Some g) = Some (map_of (rev (assignments h a))) \<and>
         (distinct (map fst (assignments h a)) \<longrightarrow>
            card (dom (map_of (rev (assignments h a)))) = 8 \<and>
            (\<forall>(k, sd) \<in> set (assignments h a). map_of (rev (assignments h a)) k = Some sd))"
  using playerIdToHomeOrAwayMap_Some [OF assms] distinct_assignments_card [of h a]
    distinct_assignments_lookup [of h a]
  by blast

text \<open>The rosters of scenario A are disjoint: eight entries, player 1 at home, player 5 away.\<close>

theorem playerIdToHomeOrAwayMap_last_write_wins_witness:
  "playerIdToHomeOrAwayMap (Some scenarioA) = Some (map_of (rev (assignments home1234 away5678))) \<and>
   card (dom (map_of (rev (assignments home1234 away5678)))) = 8 \<and>
   map_of (rev (assignments home1234 away5678)) (Key 1) = Some Home \<and>
   map_of (rev (assignments home1234 away5678)) (Key 5) = Some Away"
proof -
  have h: "homeTeam scenarioA = Some home1234" and a: "awayTeam scenarioA = Some away5678"
    by (simp_all add: scenarioA_def)
  have d: "distinct (map fst (assignments home1234 away5678))"
    by (simp add: assignments_def home1234_def away5678_def)
  from playerIdToHomeOrAwayMap_last_write_wins [OF h a] d show ?thesis
    by (simp add: assignments_def home1234_def away5678_def)
qed

text \<open>
  Player 1 is on both rosters of \<open>conflict_game\<close>: the getter does not fail, it returns a
  map, and the map puts player 1 on the away side.
\<close>

theorem playerIdToHomeOrAwayMap_no_RosterConflict:
  "playerIdToHomeOrAwayMap (Some conflict_game) = Some (map_of (rev (assignments home1234 away1567))) \<and>
   map_of (rev (assignments home1234 away1567)) (Key 1) = Some Away"
proof -
  have "homeTeam conflict_game = Some home1234" and "awayTeam conflict_game = Some away1567"
    by (simp_all add: conflict_game_def)
  then show ?thesis
    by (simp add: playerIdToHomeOrAwayMap_Some) (simp add: assignments_def home1234_def away1567_def)
qed

section \<open>Claims about the totals\<close>

text \<open>
  C2. For a game whose stats all have a number other than \<^verbatim>\<open>NaN\<close> as time, and whose
  player map exists, \<^verbatim>\<open>finalScore\<close> returns what \<^verbatim>\<open>currentScore\<close> returns when the
  view model's time is \<^verbatim>\<open>+Infinity\<close>; its home and away totals are the sums of the
  point values of the stats whose player the map puts on that side.
\<close>

theorem finalScore_eq_currentScore_PosInf:
  assumes "stats g = Some ss"
    and "playerIdToHomeOrAwayMap (Some g) = Some m"
    and "\<forall>s\<in>set ss. \<not> isNaN (time s)"
  shows "finalScore (Some g) = currentScore (Some g) PosInf \<and>
         (\<exists>sc. finalScore (Some g) = Inr (Some sc) \<and>
               home sc = side_total m Home ss \<and> away sc = side_total m Away ss)"
proof -
  from assms(3) have "filter (\<lambda>s. js_le (time s) PosInf) ss = ss"
    by (simp add: js_le_PosInf)
  then have "finalScore (Some g) = currentScore (Some g) PosInf"
    using assms(1) by (simp add: finalScore_def currentScore_def each_tally_upto)
  with finalScore_total [OF assms(1,2)] show ?thesis by simp
qed

theorem finalScore_eq_currentScore_PosInf_witness:
  "finalScore (Some scenarioA) = currentScore (Some scenarioA) PosInf \<and>
   (\<exists>sc. finalScore (Some scenarioA) = Inr (Some sc) \<and> home sc = 2 \<and> away sc = 2)"
proof -
  have s: "stats scenarioA = Some [stat_10, stat_20, stat_30]"
    by (simp add: scenarioA_def)
  have t: "\<forall>s\<in>set [stat_10, stat_20, stat_30]. \<not> isNaN (time s)"
    by (simp add: stat_10_def stat_20_def stat_30_def)
  have e: "side_total (map_of (rev (assignments home1234 away5678))) Home [stat_10, stat_20, stat_30] = 2"
    "side_total (map_of (rev (assignments home1234 away5678))) Away [stat_10, stat_20, stat_30] = 2"
    by (simp_all add: side_total_def point_value_def assignments_def example_defs)
  from finalScore_eq_currentScore_PosInf [OF s scenarioA_map t] show ?thesis
    unfolding e .
qed

text \<open>
  C3. A stat whose player the map does not know changes neither total: with it in the
  log, \<^verbatim>\<open>finalScore\<close> and \<^verbatim>\<open>currentScore\<close> (at any time) return totals, not an
  error, and the home and the away total are the ones returned for the log without that
  stat. The getters do not change the log: the stat is still in it.
\<close>

theorem unmapped_stat_is_skipped:
  assumes "stats g = Some (xs @ s # ys)"
    and "playerIdToHomeOrAwayMap (Some g) = Some m"
    and "m (playerId s) = None"
  shows "(\<exists>sc sc'. finalScore (Some g) = Inr (Some sc) \<and>
            finalScore (Some (g\<lparr>stats := Some (xs @ ys)\<rparr>)) = Inr (Some sc') \<and>
            home sc = home sc' \<and> away sc = away sc') \<and>
         (\<exists>sc sc'. currentScore (Some g) t = Inr (Some sc) \<and>
            currentScore (Some (g\<lparr>stats := Some (xs @ ys)\<rparr>)) t = Inr (Some sc') \<and>
            home sc = home sc' \<and> away sc = away sc') \<and>
         s \<in> set (xs @ s # ys)"
proof -
  let ?g = "g\<lparr>stats := Some (xs @ ys)\<rparr>"
  let ?upto = "filter (\<lambda>s. js_le (time s) t)"
  have st: "stats ?g = Some (xs @ ys)" by simp
  have pm: "playerIdToHomeOrAwayMap (Some ?g) = Some m" using assms(2) by simp
  have un: "\<And>sd P. side_total m sd (filter P (xs @ s # ys)) = side_total m sd (filter P (xs @ ys))"
    "\<And>sd. side_total m sd (xs @ s # ys) = side_total m sd (xs @ ys)"
    using assms(3) by (simp_all add: side_total_def)
  from finalScore_total [OF assms(1,2)] finalScore_total [OF st pm]
  have 1: "\<exists>sc sc'. finalScore (Some g) = Inr (Some sc) \<and>
            finalScore (Some ?g) = Inr (Some sc') \<and>
            home sc = home sc' \<and> away sc = away sc'"
    by (auto simp add: un)
  from currentScore_total [OF assms(1,2), of t] obtain sc where
    c: "currentScore (Some g) t = Inr (Some sc)"
      "home sc = side_total m Home (?upto (xs @ s # ys))"
      "away sc = side_total m Away (?upto (xs @ s # ys))"
    by blast
  from currentScore_total [OF st pm, of t] obtain sc' where
    c': "currentScore (Some ?g) t = Inr (Some sc')"
      "home sc' = side_total m Home (?upto (xs @ ys))"
      "away sc' = side_total m Away (?upto (xs @ ys))"
    by blast
  have "home sc = home sc'" and "away sc = away sc'"
    by (simp_all only: c c' un)
  with c(1) c'(1)
  have 2: "\<exists>sc sc'. currentScore (Some g) t = Inr (Some sc) \<and>
            currentScore (Some ?g) t = Inr (Some sc') \<and>
            home sc = home sc' \<and> away sc = away sc'"
    by blast
  from 1 2 show ?thesis by simp
qed

text \<open>Scenario D: player 99 is on neither team; the totals are those of scenario A.\<close>

theorem unmapped_stat_is_skipped_witness:
  "(\<exists>sc sc'. finalScore (Some scenarioD) = Inr (Some sc) \<and>
      finalScore (Some (scenarioD\<lparr>stats := Some ([stat_10] @ [stat_20, stat_30])\<rparr>)) = Inr (Some sc') \<and>
      home sc = home sc' \<and> away sc = away sc') \<and>
   (\<exists>sc sc'. currentScore (Some scenarioD) (Num 20) = Inr (Some sc) \<and>
      currentScore (Some (scenarioD\<lparr>stats := Some ([stat_10] @ [stat_20, stat_30])\<rparr>)) (Num 20) = Inr (Some sc') \<and>
      home sc = home sc' \<and> away sc = away sc') \<and>
   stat_stray \<in> set ([stat_10] @ stat_stray # [stat_20, stat_30])"
proof -
  have s: "stats scenarioD = Some ([stat_10] @ stat_stray # [stat_20, stat_30])"
    by (simp add: scenarioD_def)
  have u: "map_of (rev (assignments home1234 away5678)) (playerId stat_stray) = None"
    by (simp add: assignments_def home1234_def away5678_def stat_stray_def)
  from unmapped_stat_is_skipped [OF s scenarioD_map u, of "Num 20"] show ?thesis .
qed

text \<open>
  C4. The cutoff is inclusive: a stat whose time is the view model's time itself (a number
  other than \<^verbatim>\<open>NaN\<close>) is counted by \<^verbatim>\<open>currentScore\<close>, which returns the totals for
  the log without that stat plus the stat's point value on its player's side. In
  scenario A the score at time 20 is 1 to 2 and the final score 2 to 2, and a game with no
  stats has 0 to 0 in both getters.
\<close>

theorem currentScore_cutoff_inclusive:
  assumes "stats g = Some (xs @ s # ys)"
    and "playerIdToHomeOrAwayMap (Some g) = Some m"
    and "time s = t" and "\<not> isNaN t"
  shows "(\<exists>sc sc'. currentScore (Some g) t = Inr (Some sc) \<and>
            currentScore (Some (g\<lparr>stats := Some (xs @ ys)\<rparr>)) t = Inr (Some sc') \<and>
            home sc = home sc' + (if m (playerId s) = Some Home then point_value s else 0) \<and>
            away sc = away sc' + (if m (playerId s) = Some Away then point_value s else 0)) \<and>
         currentScore (Some scenarioA) (Num 20) =
           Inr (Some \<lparr>home = 1, away = 2, undefined_NaN = False\<rparr>) \<and>
         finalScore (Some scenarioA) = Inr (Some \<lparr>home = 2, away = 2, undefined_NaN = False\<rparr>) \<and>
         finalScore (Some (g\<lparr>stats := Some []\<rparr>)) =
           Inr (Some \<lparr>home = 0, away = 0, undefined_NaN = False\<rparr>) \<and>
         currentScore (Some (g\<lparr>stats := Some []\<rparr>)) t' =
           Inr (Some \<lparr>home = 0, away = 0, undefined_NaN = False\<rparr>)"
proof -
  let ?g = "g\<lparr>stats := Some (xs @ ys)\<rparr>"
  have st: "stats ?g = Some (xs @ ys)" by simp
  have pm: "playerIdToHomeOrAwayMap (Some ?g) = Some m" using assms(2) by simp
  have inc: "js_le (time s) t" using assms(3,4) by (simp add: js_le_refl)
  from currentScore_total [OF assms(1,2), of t] currentScore_total [OF st pm, of t]
  have 1: "\<exists>sc sc'. currentScore (Some g) t = Inr (Some sc) \<and>
            currentScore (Some ?g) t = Inr (Some sc') \<and>
            home sc = home sc' + (if m (playerId s) = Some Home then point_value s else 0) \<and>
            away sc = away sc' + (if m (playerId s) = Some Away then point_value s else 0)"
    using inc by (auto simp add: side_total_def)
  have 2: "finalScore (Some (g\<lparr>stats := Some []\<rparr>)) =
             Inr (Some \<lparr>home = 0, away = 0, undefined_NaN = False\<rparr>)"
    "currentScore (Some (g\<lparr>stats := Some []\<rparr>)) t' =
             Inr (Some \<lparr>home = 0, away = 0, undefined_NaN = False\<rparr>)"
    by (simp_all add: finalScore_def currentScore_def zero_scores_def)
  from 1 2 scenarioA_scores show ?thesis by simp
qed

text \<open>
  In scenario A at time 20 the away two-pointer made at second 20 is counted: without it
  the away total is 0, with it 2.
\<close>

theorem currentScore_cutoff_inclusive_witness:
  "currentScore (Some scenarioA) (Num 20) = Inr (Some \<lparr>home = 1, away = 2, undefined_NaN = False\<rparr>) \<and>
   currentScore (Some (scenarioA\<lparr>stats := Some ([stat_10] @ [stat_30])\<rparr>)) (Num 20) =
     Inr (Some \<lparr>home = 1, away = 0, undefined_NaN = False\<rparr>) \<and>
   finalScore (Some scenarioA) = Inr (Some \<lparr>home = 2, away = 2, undefined_NaN = False\<rparr>) \<and>
   finalScore (Some (scenarioA\<lparr>stats := Some []\<rparr>)) =
     Inr (Some \<lparr>home = 0, away = 0, undefined_NaN = False\<rparr>) \<and>
   currentScore (Some (scenarioA\<lparr>stats := Some []\<rparr>)) (Num 20) =
     Inr (Some \<lparr>home = 0, away = 0, undefined_NaN = False\<rparr>)"
proof -
  have s: "stats scenarioA = Some ([stat_10] @ stat_20 # [stat_30])"
    by (simp add: scenarioA_def)
  have t: "time stat_20 = Num 20" and n: "\<not> isNaN (Num 20)"
    by (simp_all add: stat_20_def)
  have "currentScore (Some (scenarioA\<lparr>stats := Some ([stat_10] @ [stat_30])\<rparr>)) (Num 20) =
     Inr (Some \<lparr>home = 1, away = 0, undefined_NaN = False\<rparr>)"
    by (simp add: score_defs example_defs)
  with currentScore_cutoff_inclusive [OF s scenarioA_map t n, of "Num 20"] show ?thesis
    by simp
qed

text \<open>
  C8. The totals do not go down as the time goes up: for cutoffs \<^verbatim>\<open>t1 < t2\<close> and any log
  (a stat is worth 0, 1 or 2 points, never less), the home and the away total of
  \<^verbatim>\<open>currentScore\<close> at \<^verbatim>\<open>t2\<close> are at least those at \<^verbatim>\<open>t1\<close>.
\<close>

theorem currentScore_mono:
  assumes "js_lt t1 t2"
    and "stats g = Some ss"
    and "playerIdToHomeOrAwayMap (Some g) = Some m"
  shows "\<exists>sc1 sc2. currentScore (Some g) t1 = Inr (Some sc1) \<and>
           currentScore (Some g) t2 = Inr (Some sc2) \<and>
           home sc1 \<le> home sc2 \<and> away sc1 \<le> away sc2"
proof -
  have mono: "\<And>sd. side_total m sd (filter (\<lambda>s. js_le (time s) t1) ss)
                  \<le> side_total m sd (filter (\<lambda>s. js_le (time s) t2) ss)"
    by (rule side_total_filter_mono) (rule js_le_trans_lt [OF _ assms(1)])
  from currentScore_total [OF assms(2,3), of t1] currentScore_total [OF assms(2,3), of t2]
  show ?thesis using mono by auto
qed

theorem currentScore_mono_witness:
  "\<exists>sc1 sc2. currentScore (Some scenarioA) (Num 20) = Inr (Some sc1) \<and>
      currentScore (Some scenarioA) (Num 30) = Inr (Some sc2) \<and>
      home sc1 \<le> home sc2 \<and> away sc1 \<le> away sc2"
proof -
  have l: "js_lt (Num 20) (Num 30)"
    by (simp add: js_lt_def)
  have s: "stats scenarioA = Some [stat_10, stat_20, stat_30]"
    by (simp add: scenarioA_def)
  from currentScore_mono [OF l s scenarioA_map] show ?thesis .
qed

section \<open>Claims about the editing session\<close>

text \<open>
  C7. \<^verbatim>\<open>showStatMenuFor\<close> without a session, or with a session that is no
  administrator's, returns with the view model as it was: no stat is opened and nothing is
  sent to the player. With an administrator's session and the player loaded it pauses the
  video and opens a stat whose time is the player's current time and whose player id is the
  id of the player clicked on.
\<close>

theorem showStatMenuFor_capability_gate:
  "((session vm = None \<or> (\<exists>s. session vm = Some s \<and> \<not> isAdmin s)) \<longrightarrow>
      showStatMenuFor p vm = Inr vm) \<and>
   (session vm = Some s \<and> isAdmin s \<and> youtubePlayer vm = Some yt \<longrightarrow>
      (\<exists>vm' c. showStatMenuFor p vm = Inr vm' \<and> trace vm' = trace vm @ [PauseVideo] \<and>
         stat vm' = Some c \<and> time c = getCurrentTime yt \<and> playerId c = id_Player p))"
  by (auto simp add: showStatMenuFor_def new_Stat_def Let_def)

theorem showStatMenuFor_capability_gate_witness:
  "showStatMenuFor player7 viewer_vm = Inr viewer_vm \<and>
   stat viewer_vm = None \<and>
   (\<exists>vm' c. showStatMenuFor player7 admin_vm = Inr vm' \<and> trace vm' = trace admin_vm @ [PauseVideo] \<and>
       stat vm' = Some c \<and> time c = Num 2 \<and> playerId c = Key 7)"
proof -
  have v: "session viewer_vm = None \<or> (\<exists>s. session viewer_vm = Some s \<and> \<not> isAdmin s)"
    by (simp add: viewer_vm_def admin_vm_def)
  have a: "session admin_vm = Some \<lparr>isAdmin = True\<rparr> \<and> isAdmin \<lparr>isAdmin = True\<rparr> \<and>
           youtubePlayer admin_vm = Some \<lparr>getCurrentTime = Num 2\<rparr>"
    by (simp add: admin_vm_def)
  have i: "stat viewer_vm = None"
    by (simp add: viewer_vm_def admin_vm_def)
  from showStatMenuFor_capability_gate [of viewer_vm player7] v
    showStatMenuFor_capability_gate [of admin_vm player7 "\<lparr>isAdmin = True\<rparr>" "\<lparr>getCurrentTime = Num 2\<rparr>"] a i
  show ?thesis by (simp add: player7_def)
qed

text \<open>
  C5. With a stat open, \<^verbatim>\<open>createStat\<close> issues one save of it. When the store rejects the
  save, the failure callback writes the error to the console and removes the stat: no stat
  is open afterwards, the game (and so its list of stats) is what it was, and the only calls
  made are the one save and the one console line: no second save, no exception.
\<close>

theorem createStat_failure_returns_to_idle:
  assumes "stat vm = Some s"
  shows "createStat vm = Inr (vm\<lparr>trace := trace vm @ [PreventDefault, Save s]\<rparr>) \<and>
         stat (save_done (Rejected e) (vm\<lparr>trace := trace vm @ [PreventDefault, Save s]\<rparr>)) = None \<and>
         game (save_done (Rejected e) (vm\<lparr>trace := trace vm @ [PreventDefault, Save s]\<rparr>)) = game vm \<and>
         trace (save_done (Rejected e) (vm\<lparr>trace := trace vm @ [PreventDefault, Save s]\<rparr>)) =
           trace vm @ [PreventDefault, Save s, ConsoleLog e]"
  using assms by (simp add: createStat_def)

theorem createStat_failure_returns_to_idle_witness:
  "createStat seeded_vm =
     Inr (seeded_vm\<lparr>trace := [PauseVideo, PreventDefault, Save (new_Stat (Num 2) (Key 7) (Key 1) player7)]\<rparr>) \<and>
   stat (save_done (Rejected ''500'')
     (seeded_vm\<lparr>trace := [PauseVideo, PreventDefault, Save (new_Stat (Num 2) (Key 7) (Key 1) player7)]\<rparr>)) = None \<and>
   game (save_done (Rejected ''500'')
     (seeded_vm\<lparr>trace := [PauseVideo, PreventDefault, Save (new_Stat (Num 2) (Key 7) (Key 1) player7)]\<rparr>)) =
     Some scenarioA \<and>
   trace (save_done (Rejected ''500'')
     (seeded_vm\<lparr>trace := [PauseVideo, PreventDefault, Save (new_Stat (Num 2) (Key 7) (Key 1) player7)]\<rparr>)) =
     [PauseVideo, PreventDefault, Save (new_Stat (Num 2) (Key 7) (Key 1) player7), ConsoleLog ''500'']"
proof -
  have o: "stat seeded_vm = Some (new_Stat (Num 2) (Key 7) (Key 1) player7)"
    and t: "trace seeded_vm = [PauseVideo]" and g: "game seeded_vm = Some scenarioA"
    by (simp_all add: seeded_vm_def admin_vm_def)
  from createStat_failure_returns_to_idle [OF o, of "''500''"] show ?thesis
    by (simp add: t g)
qed

text \<open>
  C6, as the code has it. \<^verbatim>\<open>deleteStat\<close> asks for confirmation and sends the delete to
  the store only if the answer is yes; after a no it has sent no delete and the game (and so
  its list of stats) is what it was.
\<close>

theorem deleteStat_gated_by_confirm:
  "\<exists>new. trace (deleteStat st ev answer vm) = trace vm @ new \<and>
      (Destroy st \<in> set new \<longrightarrow> answer) \<and>
      (\<not> answer \<longrightarrow> (\<forall>x. Destroy x \<notin> set new) \<and> game (deleteStat st ev answer vm) = game vm)"
  by (cases answer) (auto simp add: deleteStat_def Let_def)

theorem deleteStat_gated_by_confirm_witness:
  "(\<exists>new. trace (deleteStat stat_10 True True admin_vm) = trace admin_vm @ new \<and>
      Destroy stat_10 \<in> set new) \<and>
   (\<exists>new. trace (deleteStat stat_10 True False admin_vm) = trace admin_vm @ new \<and>
      Destroy stat_10 \<notin> set new \<and> game (deleteStat stat_10 True False admin_vm) = game admin_vm)"
proof -
  have y: "trace (deleteStat stat_10 True True admin_vm) =
             trace admin_vm @ [Confirm, Destroy stat_10, StopPropagation]"
    by (simp add: deleteStat_def Let_def)
  from deleteStat_gated_by_confirm [of stat_10 True True admin_vm]
    deleteStat_gated_by_confirm [of stat_10 True False admin_vm] y
  show ?thesis by auto
qed

text \<open>
  A logged-in user who is no administrator confirms: the delete is sent, and nothing
  reports a denial.
\<close>

theorem deleteStat_ignores_capability:
  "session viewer_vm = Some \<lparr>isAdmin = False\<rparr> \<and>
   trace (deleteStat stat_10 True True viewer_vm) = [Confirm, Destroy stat_10, StopPropagation]"
  by (simp add: viewer_vm_def admin_vm_def deleteStat_def)

section \<open>Claims about the binding between the stat's time and the player\<close>

text \<open>
  C9, as the code has it. While a stat is open and the video plays, every time update
  writes the player's current time into the stat's time and re-arms itself, sending nothing
  to the player. The handler for a change of the stat's time seeks the player to that time
  exactly when the time is a number, is at least 0 and is more than 2 seconds away from the
  player's current time; otherwise it does nothing.
\<close>

theorem stat_time_binding_gated:
  assumes "stat vm = Some s" and "youtubePlayer vm = Some yt"
  shows "(\<exists>vm'. onPlayerStateChange PLAYING vm = Inr vm' \<and>
            attr_stat_time vm' = getCurrentTime yt \<and> timeUpdate_timer vm' \<and> trace vm' = trace vm) \<and>
         (\<exists>vm'. timeUpdate vm = Inr vm' \<and>
            attr_stat_time vm' = getCurrentTime yt \<and> timeUpdate_timer vm' \<and> trace vm' = trace vm) \<and>
         stat_time_handler vm =
           Inr (if typeof_number (time s) \<and> js_ge (time s) (Num 0) \<and>
                   js_gt (Math_abs (js_sub (time s) (getCurrentTime yt))) (Num 2)
                then vm\<lparr>trace := trace vm @ [SeekTo (time s) True]\<rparr> else vm)"
  using assms
  by (simp add: onPlayerStateChange_def timeUpdate_def updatePosition_def attr_stat_time_def
      stat_time_handler_def Let_def)

text \<open>
  The candidate at second 30 with the player at second 2: playing pulls the candidate to 2;
  the change handler, run while the candidate is still at 30, seeks the player to 30.
\<close>

theorem stat_time_binding_gated_witness:
  "(\<exists>vm'. onPlayerStateChange PLAYING scrubbed_vm = Inr vm' \<and>
      attr_stat_time vm' = Num 2 \<and> timeUpdate_timer vm' \<and> trace vm' = [PauseVideo]) \<and>
   (\<exists>vm'. timeUpdate scrubbed_vm = Inr vm' \<and>
      attr_stat_time vm' = Num 2 \<and> timeUpdate_timer vm' \<and> trace vm' = [PauseVideo]) \<and>
   stat_time_handler scrubbed_vm = Inr (scrubbed_vm\<lparr>trace := [PauseVideo, SeekTo (Num 30) True]\<rparr>)"
proof -
  have o: "stat scrubbed_vm = Some (new_Stat (Num 30) (Key 7) (Key 1) player7)"
    and y: "youtubePlayer scrubbed_vm = Some \<lparr>getCurrentTime = Num 2\<rparr>"
    and t: "trace scrubbed_vm = [PauseVideo]"
    by (simp_all add: scrubbed_vm_def admin_vm_def)
  from stat_time_binding_gated [OF o y] show ?thesis
    by (simp add: t new_Stat_def js_sub_def js_gt_def js_lt_def js_ge_def js_le_def)
qed

text \<open>
  The administrator clicks on player 7 with the video at second 2 and moves the candidate
  back by 10 seconds. The candidate is at -8, ten seconds away from the player, and the
  change handler sends no seek.
\<close>

theorem stat_time_no_seek_below_zero:
  "showStatMenuFor player7 admin_vm = Inr seeded_vm \<and>
   minusTime (Num 10) seeded_vm = Inr nudged_vm \<and>
   attr_stat_time nudged_vm = Num (- 8) \<and>
   youtubePlayer nudged_vm = Some \<lparr>getCurrentTime = Num 2\<rparr> \<and>
   js_gt (Math_abs (js_sub (Num (- 8)) (Num 2))) (Num 2) \<and>
   stat_time_handler nudged_vm = Inr nudged_vm"
  by (simp add: showStatMenuFor_def minusTime_def set_stat_time_def attr_stat_time_def
      attr_game_id_def example_defs js_sub_def js_gt_def js_lt_def js_ge_def js_le_def
      stat_time_handler_def)

text \<open>
  C10. The handler for a change of the stat's time sends no seek when that time is not a
  number or is below 0; whenever it does send one, it is a single seek to a time that is a
  number and at least 0.
\<close>

theorem stat_time_handler_never_seeks_below_zero:
  "(\<not> typeof_number (attr_stat_time vm) \<or> js_lt (attr_stat_time vm) (Num 0) \<longrightarrow>
      stat_time_handler vm = Inr vm) \<and>
   (stat_time_handler vm = Inr vm' \<longrightarrow>
      vm' = vm \<or>
      (\<exists>t. vm' = vm\<lparr>trace := trace vm @ [SeekTo t True]\<rparr> \<and> typeof_number t \<and> js_ge t (Num 0)))"
  by (auto simp add: stat_time_handler_def Let_def dest: js_lt_not_ge
      split: option.splits if_splits)

text \<open>
  \<^verbatim>\<open>minusTime(10)\<close> on a candidate at second 2 leaves it at -8, for which no seek is sent;
  with no stat open the time reads \<^verbatim>\<open>undefined\<close> and no seek is sent; for the candidate
  at second 30 the seek goes to 30.
\<close>

theorem stat_time_handler_never_seeks_below_zero_witness:
  "minusTime (Num 10) seeded_vm = Inr nudged_vm \<and>
   js_lt (attr_stat_time nudged_vm) (Num 0) \<and>
   stat_time_handler nudged_vm = Inr nudged_vm \<and>
   \<not> typeof_number (attr_stat_time admin_vm) \<and>
   stat_time_handler admin_vm = Inr admin_vm \<and>
   (\<exists>t. stat_time_handler scrubbed_vm = Inr (scrubbed_vm\<lparr>trace := trace scrubbed_vm @ [SeekTo t True]\<rparr>) \<and>
      typeof_number t \<and> js_ge t (Num 0))"
proof -
  have m: "minusTime (Num 10) seeded_vm = Inr nudged_vm"
    by (simp add: minusTime_def set_stat_time_def attr_stat_time_def example_defs js_sub_def)
  have n: "js_lt (attr_stat_time nudged_vm) (Num 0)"
    by (simp add: attr_stat_time_def example_defs js_lt_def)
  have u: "\<not> typeof_number (attr_stat_time admin_vm)"
    by (simp add: attr_stat_time_def example_defs)
  have s: "stat_time_handler scrubbed_vm =
             Inr (scrubbed_vm\<lparr>trace := trace scrubbed_vm @ [SeekTo (Num 30) True]\<rparr>)"
    by (simp add: stat_time_handler_def attr_stat_time_def example_defs js_sub_def js_gt_def
        js_lt_def js_ge_def js_le_def Let_def)
  have d: "scrubbed_vm\<lparr>trace := trace scrubbed_vm @ [SeekTo (Num 30) True]\<rparr> \<noteq> scrubbed_vm"
    by (simp add: example_defs ViewModel.equality)
  from stat_time_handler_never_seeks_below_zero [of nudged_vm] n
    stat_time_handler_never_seeks_below_zero [of admin_vm] u
    stat_time_handler_never_seeks_below_zero
      [of scrubbed_vm "scrubbed_vm\<lparr>trace := trace scrubbed_vm @ [SeekTo (Num 30) True]\<rparr>"] s d m
  show ?thesis by auto
qed

end
